theory Spec2Isabelle
  imports Main
begin

section \<open>Data model\<close>

text \<open>
  The dynamic secret service (\<^verbatim>\<open>dynamicSecretServiceFactory\<close>) orchestrates four
  operations over injected collaborators. Its own code is embedded below line by line;
  the collaborators it receives (permission service, folder resolver, lease index,
  pruning queue, provider registry, symmetric codec) are fields of an environment
  record, and the Config Store is an in-memory table.
\<close>

text \<open>A JSON value; a provider input object is a dictionary from field names to values.\<close>

datatype json = JNull | JBool bool | JNum int | JStr string
  | JArr "json list" | JObj "(string \<times> json) list"

type_synonym jobject = "string \<rightharpoonup> json"

text \<open>
  One row of the dynamic secret table. The fields carry the column names the service
  reads and writes; \<open>id'\<close> and \<open>type'\<close> are the columns \<^verbatim>\<open>id\<close> and \<^verbatim>\<open>type\<close>.
\<close>

record TDynamicSecrets =
  id' :: nat
  folderId :: string
  slug :: string
  type' :: string
  version :: nat
  inputIV :: string
  inputTag :: string
  inputCiphertext :: string
  algorithm :: string
  keyEncoding :: string
  maxTTL :: string
  defaultTTL :: string
  isDeleting :: bool

text \<open>
  The object literals handed to \<^verbatim>\<open>dynamicSecretDAL.create\<close> and
  \<^verbatim>\<open>dynamicSecretDAL.updateById\<close> are lists of column assignments, in the order the
  source writes them. Every column of the table can be assigned, as with the
  \<^verbatim>\<open>Partial\<close> of the row type.
\<close>

datatype column =
    Col_id nat
  | Col_folderId string
  | Col_slug string
  | Col_type string
  | Col_version nat
  | Col_inputIV string
  | Col_inputTag string
  | Col_inputCiphertext string
  | Col_algorithm string
  | Col_keyEncoding string
  | Col_maxTTL string
  | Col_defaultTTL string
  | Col_isDeleting bool

fun set_column :: "column \<Rightarrow> TDynamicSecrets \<Rightarrow> TDynamicSecrets" where
  "set_column (Col_id v) r = r\<lparr>id' := v\<rparr>"
| "set_column (Col_folderId v) r = r\<lparr>folderId := v\<rparr>"
| "set_column (Col_slug v) r = r\<lparr>slug := v\<rparr>"
| "set_column (Col_type v) r = r\<lparr>type' := v\<rparr>"
| "set_column (Col_version v) r = r\<lparr>version := v\<rparr>"
| "set_column (Col_inputIV v) r = r\<lparr>inputIV := v\<rparr>"
| "set_column (Col_inputTag v) r = r\<lparr>inputTag := v\<rparr>"
| "set_column (Col_inputCiphertext v) r = r\<lparr>inputCiphertext := v\<rparr>"
| "set_column (Col_algorithm v) r = r\<lparr>algorithm := v\<rparr>"
| "set_column (Col_keyEncoding v) r = r\<lparr>keyEncoding := v\<rparr>"
| "set_column (Col_maxTTL v) r = r\<lparr>maxTTL := v\<rparr>"
| "set_column (Col_defaultTTL v) r = r\<lparr>defaultTTL := v\<rparr>"
| "set_column (Col_isDeleting v) r = r\<lparr>isDeleting := v\<rparr>"

definition set_columns :: "column list \<Rightarrow> TDynamicSecrets \<Rightarrow> TDynamicSecrets" where
  "set_columns cols r = fold set_column cols r"

text \<open>
  The error kinds. \<open>BadRequestError\<close> is the one the service itself constructs, with a
  message; \<open>ForbiddenError\<close> comes from \<^verbatim>\<open>throwUnlessCan\<close>; \<open>TypeError\<close> is the
  runtime's error for a property read on \<^verbatim>\<open>undefined\<close>; the others are the kinds of the
  collaborators' contracts.
\<close>

datatype error =
    ForbiddenError
  | BadRequestError string
  | TypeError
  | ValidationError string
  | UnknownProviderError
  | DecryptionError
  | SyntaxError
  | ConflictError
  | NotFoundError string

datatype ProjectPermissionActions = Create | Edit

text \<open>\<^verbatim>\<open>subject(ProjectPermissionSub.Secrets, { environment, secretPath })\<close>\<close>

datatype subject = Secrets string string

type_synonym permission = "ProjectPermissionActions \<Rightarrow> subject \<Rightarrow> bool"

record TSecretFolders =
  id_folder :: string

record TDynamicProviderFns =
  validateProviderInputs :: "jobject \<Rightarrow> string + jobject"

text \<open>What \<^verbatim>\<open>infisicalSymmetricEncypt\<close> returns.\<close>

record TEncrypted =
  ciphertext :: string
  iv :: string
  tag :: string
  algorithm' :: string
  encoding :: string

text \<open>\<^verbatim>\<open>provider\<close> of the create request: \<^verbatim>\<open>provider.type\<close> and \<^verbatim>\<open>provider.inputs\<close>.\<close>

record TProvider =
  provider_type :: string
  provider_inputs :: jobject

text \<open>
  The collaborators. The first six are the members of
  \<^verbatim>\<open>TDynamicSecretServiceFactoryDep\<close> other than the Config Store; the last four are the
  imported codec and the JSON built-ins. A lease is known by its identifier only.
  \<^item> \<open>getProjectPermission actor actorId projectId actorAuthMethod actorOrgId\<close> is the
    permission, read as \<^verbatim>\<open>can(action, subject)\<close>;
  \<^item> \<open>dynamicSecretProviders\<close> is indexed by the provider type, an absent key reads
    \<^verbatim>\<open>undefined\<close>;
  \<^item> \<open>validateProviderInputs\<close> returns the validated input or the reason of its
    ValidationError;
  \<^item> \<open>infisicalSymmetricDecrypt keyEncoding ciphertext tag iv\<close> and \<open>JSON_parse\<close> are
    \<open>None\<close> where they throw.
\<close>

record env =
  getProjectPermission :: "string \<Rightarrow> string \<Rightarrow> string \<Rightarrow> string \<Rightarrow> string \<Rightarrow> permission"
  findBySecretPath :: "string \<Rightarrow> string \<Rightarrow> string \<Rightarrow> TSecretFolders option"
  dynamicSecretProviders :: "string \<rightharpoonup> TDynamicProviderFns"
  leaseFind :: "nat \<Rightarrow> string list"
  infisicalSymmetricEncypt :: "string \<Rightarrow> TEncrypted"
  infisicalSymmetricDecrypt :: "string \<Rightarrow> string \<Rightarrow> string \<Rightarrow> string \<Rightarrow> string option"
  JSON_stringify :: "jobject \<Rightarrow> string"
  JSON_parse :: "string \<Rightarrow> jobject option"

section \<open>State and effects\<close>

text \<open>
  Every call the service makes on a collaborator other than the permission service is
  logged, in the order made, so that the order of effects can be stated.
\<close>

datatype call =
    FolderDAL_findBySecretPath string string string
  | DynamicSecretDAL_findOne string string
  | DynamicSecretDAL_find string
  | DynamicSecretDAL_create "column list"
  | DynamicSecretDAL_updateById nat "column list"
  | DynamicSecretDAL_deleteById nat
  | DynamicSecretLeaseDAL_find nat
  | QueueService_pruneDynamicSecret nat
  | Provider_validateProviderInputs string
  | SymmetricEncrypt string
  | SymmetricDecrypt string

record state =
  rows :: "TDynamicSecrets list"
  nextId :: nat
  calls :: "call list"

text \<open>
  An \<^verbatim>\<open>async\<close> function is a state transformer that returns the value or the error
  thrown; \<^verbatim>\<open>await\<close> is \<open>bind\<close>, which stops at the first error and keeps the state
  reached.
\<close>

type_synonym 'a async = "state \<Rightarrow> (error + 'a) \<times> state"

definition return :: "'a \<Rightarrow> 'a async" where
  "return x = (\<lambda>s. (Inr x, s))"

definition throw :: "error \<Rightarrow> 'a async" where
  "throw e = (\<lambda>s. (Inl e, s))"

definition bind :: "'a async \<Rightarrow> ('a \<Rightarrow> 'b async) \<Rightarrow> 'b async" where
  "bind m f = (\<lambda>s. case m s of (Inl e, s') \<Rightarrow> (Inl e, s') | (Inr x, s') \<Rightarrow> f x s')"

definition logged :: "call \<Rightarrow> state \<Rightarrow> state" where
  "logged c s = s\<lparr>calls := calls s @ [c]\<rparr>"

section \<open>Collaborators\<close>

text \<open>\<^verbatim>\<open>ForbiddenError.from(permission).throwUnlessCan(action, subject)\<close>\<close>

definition throwUnlessCan :: "permission \<Rightarrow> ProjectPermissionActions \<Rightarrow> subject \<Rightarrow> unit async" where
  "throwUnlessCan permission action sub =
     (if permission action sub then return () else throw ForbiddenError)"

definition folderDAL_findBySecretPath ::
  "env \<Rightarrow> string \<Rightarrow> string \<Rightarrow> string \<Rightarrow> TSecretFolders option async" where
  "folderDAL_findBySecretPath d projectId environment path =
     (\<lambda>s. (Inr (findBySecretPath d projectId environment path),
            logged (FolderDAL_findBySecretPath projectId environment path) s))"

definition dynamicSecretLeaseDAL_find :: "env \<Rightarrow> nat \<Rightarrow> string list async" where
  "dynamicSecretLeaseDAL_find d dynamicSecretId =
     (\<lambda>s. (Inr (leaseFind d dynamicSecretId), logged (DynamicSecretLeaseDAL_find dynamicSecretId) s))"

definition pruneDynamicSecret :: "nat \<Rightarrow> unit async" where
  "pruneDynamicSecret cfgId = (\<lambda>s. (Inr (), logged (QueueService_pruneDynamicSecret cfgId) s))"

text \<open>
  \<^verbatim>\<open>selectedProvider.validateProviderInputs(raw)\<close>, where \<open>selectedProvider\<close> is what the
  registry held for \<open>ty\<close>: the call on \<^verbatim>\<open>undefined\<close> is a TypeError.
\<close>

definition selectedProvider_validateProviderInputs ::
  "TDynamicProviderFns option \<Rightarrow> string \<Rightarrow> jobject \<Rightarrow> jobject async" where
  "selectedProvider_validateProviderInputs selectedProvider ty raw =
     (case selectedProvider of
        None \<Rightarrow> throw TypeError
      | Some p \<Rightarrow>
          (\<lambda>s. (case validateProviderInputs p raw of
                   Inl reason \<Rightarrow> Inl (ValidationError reason)
                 | Inr validated \<Rightarrow> Inr validated,
                 logged (Provider_validateProviderInputs ty) s)))"

definition symmetricEncrypt :: "env \<Rightarrow> string \<Rightarrow> TEncrypted async" where
  "symmetricEncrypt d plaintext =
     (\<lambda>s. (Inr (infisicalSymmetricEncypt d plaintext), logged (SymmetricEncrypt plaintext) s))"

definition symmetricDecrypt :: "env \<Rightarrow> string \<Rightarrow> string \<Rightarrow> string \<Rightarrow> string \<Rightarrow> string async" where
  "symmetricDecrypt d keyEncoding' ciphertext' tag' iv' =
     (\<lambda>s. (case infisicalSymmetricDecrypt d keyEncoding' ciphertext' tag' iv' of
              None \<Rightarrow> Inl DecryptionError
            | Some plaintext \<Rightarrow> Inr plaintext,
            logged (SymmetricDecrypt ciphertext') s))"

definition parseJSON :: "env \<Rightarrow> string \<Rightarrow> jobject async" where
  "parseJSON d text =
     (case JSON_parse d text of None \<Rightarrow> throw SyntaxError | Some obj \<Rightarrow> return obj)"

subsection \<open>The Config Store\<close>

text \<open>
  Modelled from the spec: the data access layer \<^verbatim>\<open>dynamicSecretDAL\<close> is not among the
  sources. The spec's Config Store contract (section 4.3) is taken as an in-memory
  table: \<open>findOne\<close> is the first row matching the filter \<open>{slug, folderId}\<close>, \<open>find\<close>
  is every row of the folder.
\<close>

definition dynamicSecretDAL_findOne :: "string \<Rightarrow> string \<Rightarrow> TDynamicSecrets option async" where
  "dynamicSecretDAL_findOne slug' folderId' =
     (\<lambda>s. (Inr (List.find (\<lambda>r. slug r = slug' \<and> folderId r = folderId') (rows s)),
            logged (DynamicSecretDAL_findOne slug' folderId') s))"

definition dynamicSecretDAL_find :: "string \<Rightarrow> TDynamicSecrets list async" where
  "dynamicSecretDAL_find folderId' =
     (\<lambda>s. (Inr (filter (\<lambda>r. folderId r = folderId') (rows s)),
            logged (DynamicSecretDAL_find folderId') s))"

text \<open>
  Modelled from the spec: a created row gets a fresh \<open>id\<close> and the column defaults
  (\<open>isDeleting\<close> false, section 3), then the columns given. The store refuses with
  \<open>ConflictError\<close> a row whose slug a non-deleted row of the same folder already has.
\<close>

definition blank_row :: "nat \<Rightarrow> TDynamicSecrets" where
  "blank_row n = \<lparr>id' = n, folderId = [], slug = [], type' = [], version = 0,
     inputIV = [], inputTag = [], inputCiphertext = [], algorithm = [], keyEncoding = [],
     maxTTL = [], defaultTTL = [], isDeleting = False\<rparr>"

definition dynamicSecretDAL_create :: "column list \<Rightarrow> TDynamicSecrets async" where
  "dynamicSecretDAL_create cols =
     (\<lambda>s. let s1 = logged (DynamicSecretDAL_create cols) s;
               r = set_columns cols (blank_row (nextId s))
           in if list_ex (\<lambda>x. folderId x = folderId r \<and> slug x = slug r \<and> \<not> isDeleting x) (rows s)
              then (Inl ConflictError, s1)
              else (Inr r, s1\<lparr>rows := rows s @ [r], nextId := Suc (nextId s)\<rparr>))"

text \<open>
  Modelled from the spec: \<open>updateById\<close> assigns the given columns in the row of that
  id and returns the row as updated, \<open>NotFoundError\<close> when no row has the id;
  \<open>deleteById\<close> removes the row of that id and returns it.
\<close>

definition dynamicSecretDAL_updateById :: "nat \<Rightarrow> column list \<Rightarrow> TDynamicSecrets async" where
  "dynamicSecretDAL_updateById i cols =
     (\<lambda>s. let s1 = logged (DynamicSecretDAL_updateById i cols) s
           in case List.find (\<lambda>r. id' r = i) (rows s) of
                None \<Rightarrow> (Inl (NotFoundError ''Dynamic secret not found''), s1)
              | Some r \<Rightarrow>
                  (Inr (set_columns cols r),
                   s1\<lparr>rows := map (\<lambda>x. if id' x = i then set_columns cols x else x) (rows s)\<rparr>))"

definition dynamicSecretDAL_deleteById :: "nat \<Rightarrow> TDynamicSecrets async" where
  "dynamicSecretDAL_deleteById i =
     (\<lambda>s. let s1 = logged (DynamicSecretDAL_deleteById i) s
           in case List.find (\<lambda>r. id' r = i) (rows s) of
                None \<Rightarrow> (Inl (NotFoundError ''Dynamic secret not found''), s1)
              | Some r \<Rightarrow> (Inr r, s1\<lparr>rows := filter (\<lambda>x. id' x \<noteq> i) (rows s)\<rparr>))"

section \<open>The service\<close>

text \<open>
  Parameters keep the names of the destructured request; \<open>slug'\<close>, \<open>maxTTL'\<close> and
  \<open>defaultTTL'\<close> are the request's \<^verbatim>\<open>slug\<close>, \<^verbatim>\<open>maxTTL\<close> and \<^verbatim>\<open>defaultTTL\<close>.
\<close>

definition create ::
  "env \<Rightarrow> string \<Rightarrow> string \<Rightarrow> string \<Rightarrow> string \<Rightarrow> string \<Rightarrow> TProvider \<Rightarrow> string \<Rightarrow> string
     \<Rightarrow> string \<Rightarrow> string \<Rightarrow> string \<Rightarrow> TDynamicSecrets async" where
  "create d path actor slug' actorId maxTTL' provider environment projectId actorOrgId
       defaultTTL' actorAuthMethod =
     (let permission = getProjectPermission d actor actorId projectId actorAuthMethod actorOrgId in
      bind (throwUnlessCan permission Create (Secrets environment path)) (\<lambda>_.
      bind (folderDAL_findBySecretPath d projectId environment path) (\<lambda>folder.
      case folder of
        None \<Rightarrow> throw (BadRequestError ''Folder not found'')
      | Some folder \<Rightarrow>
      bind (dynamicSecretDAL_findOne slug' (id_folder folder)) (\<lambda>existingDynamicSecret.
      case existingDynamicSecret of
        Some _ \<Rightarrow> throw (BadRequestError ''Provided dynamic secret already exist under the folder'')
      | None \<Rightarrow>
      (let selectedProvider = dynamicSecretProviders d (provider_type provider) in
       bind (selectedProvider_validateProviderInputs selectedProvider (provider_type provider)
               (provider_inputs provider)) (\<lambda>inputs.
       bind (symmetricEncrypt d (JSON_stringify d inputs)) (\<lambda>encryptedInput.
       bind (dynamicSecretDAL_create
               [Col_type (provider_type provider),
                Col_version 1,
                Col_inputIV (iv encryptedInput),
                Col_inputTag (tag encryptedInput),
                Col_inputCiphertext (ciphertext encryptedInput),
                Col_algorithm (algorithm' encryptedInput),
                Col_keyEncoding (encoding encryptedInput),
                Col_maxTTL maxTTL',
                Col_defaultTTL defaultTTL',
                Col_folderId (id_folder folder),
                Col_slug slug']) (\<lambda>dynamicSecretCfg.
       return dynamicSecretCfg))))))))"

text \<open>
  \<^verbatim>\<open>{ ...decryptedStoredInput, ...(inputs || {}) }\<close>: the fields of the patch over the
  stored ones; an absent patch is the empty object.
\<close>

definition spread :: "jobject \<Rightarrow> jobject option \<Rightarrow> jobject" where
  "spread decryptedStoredInput inputs =
     decryptedStoredInput ++ (case inputs of None \<Rightarrow> Map.empty | Some patch \<Rightarrow> patch)"

text \<open>
  \<^verbatim>\<open>if (newSlug)\<close>: \<^verbatim>\<open>undefined\<close> is falsy, and so is the empty string; \<open>truthy\<close>
  is the test on a string that is present.
\<close>

definition truthy :: "string \<Rightarrow> bool" where
  "truthy v = (v \<noteq> [])"

text \<open>\<^verbatim>\<open>newSlug ?? slug\<close>: only an absent value falls back.\<close>

definition nullish :: "string option \<Rightarrow> string \<Rightarrow> string" where
  "nullish x dflt = (case x of None \<Rightarrow> dflt | Some v \<Rightarrow> v)"

definition updateBySlug ::
  "env \<Rightarrow> string \<Rightarrow> string \<Rightarrow> string \<Rightarrow> jobject option \<Rightarrow> string \<Rightarrow> string \<Rightarrow> string
     \<Rightarrow> string \<Rightarrow> string \<Rightarrow> string option \<Rightarrow> string \<Rightarrow> string \<Rightarrow> TDynamicSecrets async" where
  "updateBySlug d slug' maxTTL' defaultTTL' inputs environment projectId path actor actorId
       newSlug actorOrgId actorAuthMethod =
     (let permission = getProjectPermission d actor actorId projectId actorAuthMethod actorOrgId in
      bind (throwUnlessCan permission Edit (Secrets environment path)) (\<lambda>_.
      bind (folderDAL_findBySecretPath d projectId environment path) (\<lambda>folder.
      case folder of
        None \<Rightarrow> throw (BadRequestError ''Folder not found'')
      | Some folder \<Rightarrow>
      bind (dynamicSecretDAL_findOne slug' (id_folder folder)) (\<lambda>dynamicSecretCfg.
      case dynamicSecretCfg of
        None \<Rightarrow> throw (BadRequestError ''Dynamic secret not found'')
      | Some dynamicSecretCfg \<Rightarrow>
      bind (case newSlug of
              None \<Rightarrow> return ()
            | Some newSlug' \<Rightarrow>
                if truthy newSlug'
                then bind (dynamicSecretDAL_findOne newSlug' (id_folder folder)) (\<lambda>existingDynamicSecret.
                     case existingDynamicSecret of
                       Some _ \<Rightarrow> throw (BadRequestError ''Provided dynamic secret already exist under the folder'')
                     | None \<Rightarrow> return ())
                else return ()) (\<lambda>_.
      (let selectedProvider = dynamicSecretProviders d (type' dynamicSecretCfg) in
       bind (symmetricDecrypt d (keyEncoding dynamicSecretCfg) (inputCiphertext dynamicSecretCfg)
               (inputTag dynamicSecretCfg) (inputIV dynamicSecretCfg)) (\<lambda>plaintext.
       bind (parseJSON d plaintext) (\<lambda>decryptedStoredInput.
       (let newInput = spread decryptedStoredInput inputs in
        bind (selectedProvider_validateProviderInputs selectedProvider (type' dynamicSecretCfg)
                newInput) (\<lambda>updatedInput.
        bind (symmetricEncrypt d (JSON_stringify d updatedInput)) (\<lambda>encryptedInput.
        bind (dynamicSecretDAL_updateById (id' dynamicSecretCfg)
                [Col_inputIV (iv encryptedInput),
                 Col_inputTag (tag encryptedInput),
                 Col_inputCiphertext (ciphertext encryptedInput),
                 Col_algorithm (algorithm' encryptedInput),
                 Col_keyEncoding (encoding encryptedInput),
                 Col_maxTTL maxTTL',
                 Col_defaultTTL defaultTTL',
                 Col_slug (nullish newSlug slug')]) (\<lambda>updatedDynamicCfg.
        return updatedDynamicCfg))))))))))))"

definition deleteBySlug ::
  "env \<Rightarrow> string \<Rightarrow> string \<Rightarrow> string \<Rightarrow> string \<Rightarrow> string \<Rightarrow> string \<Rightarrow> string \<Rightarrow> string
     \<Rightarrow> TDynamicSecrets async" where
  "deleteBySlug d actorAuthMethod actorOrgId actorId actor projectId slug' path environment =
     (let permission = getProjectPermission d actor actorId projectId actorAuthMethod actorOrgId in
      bind (throwUnlessCan permission Edit (Secrets environment path)) (\<lambda>_.
      bind (folderDAL_findBySecretPath d projectId environment path) (\<lambda>folder.
      case folder of
        None \<Rightarrow> throw (BadRequestError ''Folder not found'')
      | Some folder \<Rightarrow>
      bind (dynamicSecretDAL_findOne slug' (id_folder folder)) (\<lambda>dynamicSecretCfg.
      case dynamicSecretCfg of
        None \<Rightarrow> throw (BadRequestError ''Dynamic secret not found'')
      | Some dynamicSecretCfg \<Rightarrow>
      bind (dynamicSecretLeaseDAL_find d (id' dynamicSecretCfg)) (\<lambda>leases.
      if length leases \<noteq> 0
      then bind (dynamicSecretDAL_updateById (id' dynamicSecretCfg) [Col_isDeleting True])
             (\<lambda>updatedDynamicSecretCfg.
           bind (pruneDynamicSecret (id' updatedDynamicSecretCfg)) (\<lambda>_.
           return updatedDynamicSecretCfg))
      else bind (dynamicSecretDAL_deleteById (id' dynamicSecretCfg)) (\<lambda>deletedDynamicSecretCfg.
           return deletedDynamicSecretCfg))))))"

definition list ::
  "env \<Rightarrow> string \<Rightarrow> string \<Rightarrow> string \<Rightarrow> string \<Rightarrow> string \<Rightarrow> string \<Rightarrow> string
     \<Rightarrow> TDynamicSecrets list async" where
  "list d actorAuthMethod actorOrgId actorId actor projectId path environment =
     (let permission = getProjectPermission d actor actorId projectId actorAuthMethod actorOrgId in
      bind (throwUnlessCan permission Edit (Secrets environment path)) (\<lambda>_.
      bind (folderDAL_findBySecretPath d projectId environment path) (\<lambda>folder.
      case folder of
        None \<Rightarrow> throw (BadRequestError ''Folder not found'')
      | Some folder \<Rightarrow>
      bind (dynamicSecretDAL_find (id_folder folder)) (\<lambda>dynamicSecretCfg.
      return dynamicSecretCfg))))"

text \<open>The name of the column an assignment writes: its key in the object literal.\<close>

fun column_name :: "column \<Rightarrow> string" where
  "column_name (Col_id v) = ''id''"
| "column_name (Col_folderId v) = ''folderId''"
| "column_name (Col_slug v) = ''slug''"
| "column_name (Col_type v) = ''type''"
| "column_name (Col_version v) = ''version''"
| "column_name (Col_inputIV v) = ''inputIV''"
| "column_name (Col_inputTag v) = ''inputTag''"
| "column_name (Col_inputCiphertext v) = ''inputCiphertext''"
| "column_name (Col_algorithm v) = ''algorithm''"
| "column_name (Col_keyEncoding v) = ''keyEncoding''"
| "column_name (Col_maxTTL v) = ''maxTTL''"
| "column_name (Col_defaultTTL v) = ''defaultTTL''"
| "column_name (Col_isDeleting v) = ''isDeleting''"

text \<open>
  The table's key: ids are unique and below the counter that numbers new rows.
\<close>

definition store_ok :: "state \<Rightarrow> bool" where
  "store_ok s = (distinct (map id' (rows s)) \<and> list_all (\<lambda>r. id' r < nextId s) (rows s))"

section \<open>A reference environment\<close>

text \<open>
  Concrete collaborators on which the operations are run: one folder \<open>/f1\<close> of project
  \<open>p1\<close> in \<open>dev\<close>, the actor \<open>admin\<close> holding every capability and no one else any, one
  provider \<open>postgres\<close> that requires a \<open>host\<close>, a codec that reverses the text, and a
  serialiser for the two inputs used. The table holds \<open>db1\<close> (one lease), \<open>db2\<close> (no
  lease) and \<open>old\<close>, already flagged as deleting.
\<close>

definition demo_provider :: TDynamicProviderFns where
  "demo_provider = \<lparr>validateProviderInputs =
     (\<lambda>raw. if raw ''host'' = None then Inl ''host is required'' else Inr raw)\<rparr>"

definition demo_stringify :: "jobject \<Rightarrow> string" where
  "demo_stringify obj =
     (case (obj ''host'', obj ''port'') of
        (Some (JStr h), Some (JNum n)) \<Rightarrow> h @ (if n = 5432 then '':5432'' else '':other'')
      | _ \<Rightarrow> ''{}'')"

definition demo_parse :: "string \<Rightarrow> jobject option" where
  "demo_parse text =
     (if text = ''x:5432'' then Some [''host'' \<mapsto> JStr ''x'', ''port'' \<mapsto> JNum 5432]
      else if text = ''x:other'' then Some [''host'' \<mapsto> JStr ''x'', ''port'' \<mapsto> JNum 6543]
      else None)"

definition demo_env :: env where
  "demo_env = \<lparr>
     getProjectPermission = (\<lambda>actor actorId projectId actorAuthMethod actorOrgId action sub.
        actorId = ''admin''),
     findBySecretPath = (\<lambda>projectId environment path.
        if projectId = ''p1'' \<and> environment = ''dev'' \<and> path = ''/f1''
        then Some \<lparr>id_folder = ''folder-1''\<rparr> else None),
     dynamicSecretProviders = [''postgres'' \<mapsto> demo_provider],
     leaseFind = (\<lambda>i. if i = 1 then [''lease-1''] else []),
     infisicalSymmetricEncypt = (\<lambda>plaintext.
        \<lparr>ciphertext = rev plaintext, iv = ''iv0'', tag = ''tag0'',
         algorithm' = ''aes-256-gcm'', encoding = ''utf8''\<rparr>),
     infisicalSymmetricDecrypt = (\<lambda>keyEncoding' ciphertext' tag' iv'.
        if tag' = ''tag0'' \<and> iv' = ''iv0'' then Some (rev ciphertext') else None),
     JSON_stringify = demo_stringify,
     JSON_parse = demo_parse\<rparr>"

definition demo_row :: "nat \<Rightarrow> string \<Rightarrow> bool \<Rightarrow> TDynamicSecrets" where
  "demo_row i name deleting = \<lparr>id' = i, folderId = ''folder-1'', slug = name, type' = ''postgres'',
     version = 1, inputIV = ''iv0'', inputTag = ''tag0'', inputCiphertext = ''2345:x'',
     algorithm = ''aes-256-gcm'', keyEncoding = ''utf8'', maxTTL = ''7200'', defaultTTL = ''3600'',
     isDeleting = deleting\<rparr>"

definition demo_state :: state where
  "demo_state = \<lparr>rows = [demo_row 1 ''db1'' False, demo_row 2 ''db2'' False, demo_row 3 ''old'' True],
     nextId = 4, calls = []\<rparr>"

section \<open>Basic facts\<close>

lemmas async_defs = return_def throw_def bind_def logged_def

lemmas collab_defs = throwUnlessCan_def folderDAL_findBySecretPath_def
  dynamicSecretLeaseDAL_find_def pruneDynamicSecret_def
  selectedProvider_validateProviderInputs_def symmetricEncrypt_def symmetricDecrypt_def
  parseJSON_def

lemmas store_defs = dynamicSecretDAL_findOne_def dynamicSecretDAL_find_def
  dynamicSecretDAL_create_def dynamicSecretDAL_updateById_def dynamicSecretDAL_deleteById_def

lemmas demo_defs = demo_env_def demo_state_def demo_row_def demo_provider_def
  demo_stringify_def demo_parse_def

text \<open>Where ids are unique, the row a filter finds is the row its id finds.\<close>

lemma find_by_id:
  "distinct (map id' rs) \<Longrightarrow> List.find P rs = Some cfg
     \<Longrightarrow> List.find (\<lambda>r. id' r = id' cfg) rs = Some cfg"
proof (induction rs)
  case Nil
  then show ?case by simp
next
  case (Cons r rs)
  show ?case
  proof (cases "P r")
    case True
    with Cons.prems show ?thesis by simp
  next
    case False
    with Cons.prems have f: "List.find P rs = Some cfg" and d: "distinct (map id' rs)"
      and n: "id' r \<notin> id' ` set rs" by simp_all
    from f have "cfg \<in> set rs" by (auto simp: find_Some_iff)
    with n have "id' r \<noteq> id' cfg" by auto
    with Cons.IH [OF d f] show ?thesis by simp
  qed
qed

lemma find_mem: "List.find P rs = Some cfg \<Longrightarrow> cfg \<in> set rs \<and> P cfg"
  by (auto simp: find_Some_iff)

subsection \<open>The key is kept by every operation\<close>

text \<open>
  Whatever the outcome, each operation leaves the ids unique, so the uniqueness the
  theorems below assume holds in every state reached from one where it holds.
\<close>

lemma store_ok_create:
  "store_ok s \<Longrightarrow> store_ok (snd (create d path actor slug' actorId maxTTL' provider environment
     projectId actorOrgId defaultTTL' actorAuthMethod s))"
  by (auto simp add: store_ok_def create_def async_defs collab_defs store_defs Let_def
        set_columns_def blank_row_def list_all_iff
        split: option.splits sum.splits if_splits)

lemma store_ok_updateBySlug:
  "store_ok s \<Longrightarrow> store_ok (snd (updateBySlug d slug' maxTTL' defaultTTL' inputs environment
     projectId path actor actorId newSlug actorOrgId actorAuthMethod s))"
  by (auto simp add: store_ok_def updateBySlug_def async_defs collab_defs store_defs Let_def
        truthy_def set_columns_def list_all_iff comp_def if_distrib cong: if_cong
        split: option.splits sum.splits if_splits)

lemma store_ok_deleteBySlug:
  "store_ok s \<Longrightarrow> store_ok (snd (deleteBySlug d actorAuthMethod actorOrgId actorId actor projectId
     slug' path environment s))"
  by (auto simp add: store_ok_def deleteBySlug_def async_defs collab_defs store_defs Let_def
        set_columns_def list_all_iff comp_def if_distrib distinct_map_filter cong: if_cong
        split: option.splits sum.splits if_splits)

lemma store_ok_list:
  "store_ok s \<Longrightarrow> store_ok (snd (list d actorAuthMethod actorOrgId actorId actor projectId
     path environment s))"
  by (auto simp add: store_ok_def list_def async_defs collab_defs store_defs
        split: option.splits sum.splits if_splits)

lemma store_ok_demo_state: "store_ok demo_state"
  by (simp add: store_ok_def demo_state_def demo_row_def)

section \<open>Authorization comes first\<close>

text \<open>
  C9. In each of the four operations, an actor without the required capability (Create
  for \<open>create\<close>, Edit for the other three) gets ForbiddenError and the state is the one
  the operation started from: no folder was resolved, nothing was decrypted and the
  Config Store was not touched, since each of those would have been logged.
\<close>

theorem forbidden_no_effect:
  "(\<not> getProjectPermission d actor actorId projectId actorAuthMethod actorOrgId Create
        (Secrets environment path)
      \<longrightarrow> create d path actor slug' actorId maxTTL' provider environment projectId actorOrgId
            defaultTTL' actorAuthMethod s = (Inl ForbiddenError, s))
  \<and> (\<not> getProjectPermission d actor actorId projectId actorAuthMethod actorOrgId Edit
        (Secrets environment path)
      \<longrightarrow> updateBySlug d slug' maxTTL' defaultTTL' inputs environment projectId path actor actorId
            newSlug actorOrgId actorAuthMethod s = (Inl ForbiddenError, s)
        \<and> deleteBySlug d actorAuthMethod actorOrgId actorId actor projectId slug' path environment s
            = (Inl ForbiddenError, s)
        \<and> list d actorAuthMethod actorOrgId actorId actor projectId path environment s
            = (Inl ForbiddenError, s))"
  by (simp add: create_def updateBySlug_def deleteBySlug_def list_def throwUnlessCan_def async_defs)

theorem forbidden_no_effect_witness:
  "\<not> getProjectPermission demo_env ''user'' ''viewer'' ''p1'' ''jwt'' ''org'' Create (Secrets ''dev'' ''/f1'')
   \<and> \<not> getProjectPermission demo_env ''user'' ''viewer'' ''p1'' ''jwt'' ''org'' Edit (Secrets ''dev'' ''/f1'')
   \<and> create demo_env ''/f1'' ''user'' ''db9'' ''viewer'' ''7200''
        \<lparr>provider_type = ''postgres'', provider_inputs = [''host'' \<mapsto> JStr ''x'']\<rparr>
        ''dev'' ''p1'' ''org'' ''3600'' ''jwt'' demo_state = (Inl ForbiddenError, demo_state)
   \<and> updateBySlug demo_env ''db1'' ''7200'' ''3600'' None ''dev'' ''p1'' ''/f1'' ''user'' ''viewer''
        None ''org'' ''jwt'' demo_state = (Inl ForbiddenError, demo_state)
   \<and> deleteBySlug demo_env ''jwt'' ''org'' ''viewer'' ''user'' ''p1'' ''db1'' ''/f1'' ''dev'' demo_state
        = (Inl ForbiddenError, demo_state)
   \<and> list demo_env ''jwt'' ''org'' ''viewer'' ''user'' ''p1'' ''/f1'' ''dev'' demo_state
        = (Inl ForbiddenError, demo_state)"
  using forbidden_no_effect [where d = demo_env and actor = "''user''" and actorId = "''viewer''"
      and projectId = "''p1''" and actorAuthMethod = "''jwt''" and actorOrgId = "''org''"
      and environment = "''dev''" and path = "''/f1''" and s = demo_state]
  by (simp add: demo_env_def)

section \<open>Deletion\<close>

text \<open>
  C1. \<open>deleteBySlug\<close> on a config that has at least one lease: the row of that id gets
  \<open>isDeleting = True\<close> by an \<open>updateById\<close>, logged before the one \<open>pruneDynamicSecret\<close>
  call, which carries the config's id; the flagged config is returned; the table keeps
  its length and holds the flagged config. Ids are unique in the table (the primary
  key).
\<close>

theorem deleteBySlug_with_leases:
  assumes perm: "getProjectPermission d actor actorId projectId actorAuthMethod actorOrgId Edit
                   (Secrets environment path)"
    and folder: "findBySecretPath d projectId environment path = Some folder"
    and cfg: "List.find (\<lambda>r. slug r = slug' \<and> folderId r = id_folder folder) (rows s) = Some cfg"
    and ids: "distinct (map id' (rows s))"
    and leases: "leaseFind d (id' cfg) \<noteq> []"
  shows "deleteBySlug d actorAuthMethod actorOrgId actorId actor projectId slug' path environment s =
           (Inr (cfg\<lparr>isDeleting := True\<rparr>),
            s\<lparr>rows := map (\<lambda>r. if id' r = id' cfg then r\<lparr>isDeleting := True\<rparr> else r) (rows s),
              calls := calls s @
                [FolderDAL_findBySecretPath projectId environment path,
                 DynamicSecretDAL_findOne slug' (id_folder folder),
                 DynamicSecretLeaseDAL_find (id' cfg),
                 DynamicSecretDAL_updateById (id' cfg) [Col_isDeleting True],
                 QueueService_pruneDynamicSecret (id' cfg)]\<rparr>)
         \<and> cfg\<lparr>isDeleting := True\<rparr>
             \<in> set (map (\<lambda>r. if id' r = id' cfg then r\<lparr>isDeleting := True\<rparr> else r) (rows s))
         \<and> length (map (\<lambda>r. if id' r = id' cfg then r\<lparr>isDeleting := True\<rparr> else r) (rows s))
             = length (rows s)"
proof -
  have byid: "List.find (\<lambda>r. id' r = id' cfg) (rows s) = Some cfg"
    using find_by_id [OF ids cfg] .
  have mem: "cfg \<in> set (rows s)" using find_mem [OF cfg] by simp
  have run: "deleteBySlug d actorAuthMethod actorOrgId actorId actor projectId slug' path environment s =
           (Inr (cfg\<lparr>isDeleting := True\<rparr>),
            s\<lparr>rows := map (\<lambda>r. if id' r = id' cfg then r\<lparr>isDeleting := True\<rparr> else r) (rows s),
              calls := calls s @
                [FolderDAL_findBySecretPath projectId environment path,
                 DynamicSecretDAL_findOne slug' (id_folder folder),
                 DynamicSecretLeaseDAL_find (id' cfg),
                 DynamicSecretDAL_updateById (id' cfg) [Col_isDeleting True],
                 QueueService_pruneDynamicSecret (id' cfg)]\<rparr>)"
    using perm folder cfg byid leases
    by (simp add: deleteBySlug_def async_defs collab_defs store_defs set_columns_def)
  have kept: "cfg\<lparr>isDeleting := True\<rparr>
      \<in> set (map (\<lambda>r. if id' r = id' cfg then r\<lparr>isDeleting := True\<rparr> else r) (rows s))"
    using mem by (auto simp: image_iff intro!: bexI [of _ cfg])
  show ?thesis using run kept by simp
qed

theorem deleteBySlug_with_leases_witness:
  "leaseFind demo_env 1 \<noteq> []
   \<and> distinct (map id' (rows demo_state))
   \<and> deleteBySlug demo_env ''jwt'' ''org'' ''admin'' ''user'' ''p1'' ''db1'' ''/f1'' ''dev'' demo_state =
     (Inr (demo_row 1 ''db1'' True),
      \<lparr>rows = [demo_row 1 ''db1'' True, demo_row 2 ''db2'' False, demo_row 3 ''old'' True],
       nextId = 4,
       calls = [FolderDAL_findBySecretPath ''p1'' ''dev'' ''/f1'',
                DynamicSecretDAL_findOne ''db1'' ''folder-1'',
                DynamicSecretLeaseDAL_find 1,
                DynamicSecretDAL_updateById 1 [Col_isDeleting True],
                QueueService_pruneDynamicSecret 1]\<rparr>)"
  using deleteBySlug_with_leases [of demo_env "''user''" "''admin''" "''p1''" "''jwt''" "''org''"
      "''dev''" "''/f1''" "\<lparr>id_folder = ''folder-1''\<rparr>" "''db1''" demo_state
      "demo_row 1 ''db1'' False"]
  by (simp add: demo_defs)

text \<open>
  C3. \<open>deleteBySlug\<close> on a config that has no lease: \<open>deleteById\<close> removes the row
  within the call (no prune is scheduled) and the deleted record is returned; \<open>list\<close>
  on the same folder in the state reached returns the folder's rows, and neither the
  config nor any row of its id is among them.
\<close>

theorem deleteBySlug_without_leases:
  assumes perm: "getProjectPermission d actor actorId projectId actorAuthMethod actorOrgId Edit
                   (Secrets environment path)"
    and folder: "findBySecretPath d projectId environment path = Some folder"
    and cfg: "List.find (\<lambda>r. slug r = slug' \<and> folderId r = id_folder folder) (rows s) = Some cfg"
    and ids: "distinct (map id' (rows s))"
    and leases: "leaseFind d (id' cfg) = []"
    and s1: "s1 = snd (deleteBySlug d actorAuthMethod actorOrgId actorId actor projectId slug' path
                         environment s)"
  shows "deleteBySlug d actorAuthMethod actorOrgId actorId actor projectId slug' path environment s =
           (Inr cfg,
            s\<lparr>rows := filter (\<lambda>r. id' r \<noteq> id' cfg) (rows s),
              calls := calls s @
                [FolderDAL_findBySecretPath projectId environment path,
                 DynamicSecretDAL_findOne slug' (id_folder folder),
                 DynamicSecretLeaseDAL_find (id' cfg),
                 DynamicSecretDAL_deleteById (id' cfg)]\<rparr>)
         \<and> cfg \<notin> set (rows s1)
         \<and> fst (list d actorAuthMethod actorOrgId actorId actor projectId path environment s1)
             = Inr (filter (\<lambda>r. folderId r = id_folder folder) (rows s1))
         \<and> cfg \<notin> set (filter (\<lambda>r. folderId r = id_folder folder) (rows s1))
         \<and> id' cfg \<notin> id' ` set (filter (\<lambda>r. folderId r = id_folder folder) (rows s1))"
proof -
  have byid: "List.find (\<lambda>r. id' r = id' cfg) (rows s) = Some cfg"
    using find_by_id [OF ids cfg] .
  have run: "deleteBySlug d actorAuthMethod actorOrgId actorId actor projectId slug' path environment s =
           (Inr cfg,
            s\<lparr>rows := filter (\<lambda>r. id' r \<noteq> id' cfg) (rows s),
              calls := calls s @
                [FolderDAL_findBySecretPath projectId environment path,
                 DynamicSecretDAL_findOne slug' (id_folder folder),
                 DynamicSecretLeaseDAL_find (id' cfg),
                 DynamicSecretDAL_deleteById (id' cfg)]\<rparr>)"
    using perm folder cfg byid leases
    by (simp add: deleteBySlug_def async_defs collab_defs store_defs)
  have rows1: "rows s1 = filter (\<lambda>r. id' r \<noteq> id' cfg) (rows s)"
    using s1 run by simp
  have lst: "fst (list d actorAuthMethod actorOrgId actorId actor projectId path environment s1)
             = Inr (filter (\<lambda>r. folderId r = id_folder folder) (rows s1))"
    using perm folder by (simp add: list_def async_defs collab_defs store_defs)
  show ?thesis using run rows1 lst by auto
qed

theorem deleteBySlug_without_leases_witness:
  "leaseFind demo_env 2 = []
   \<and> deleteBySlug demo_env ''jwt'' ''org'' ''admin'' ''user'' ''p1'' ''db2'' ''/f1'' ''dev'' demo_state =
     (Inr (demo_row 2 ''db2'' False),
      \<lparr>rows = [demo_row 1 ''db1'' False, demo_row 3 ''old'' True],
       nextId = 4,
       calls = [FolderDAL_findBySecretPath ''p1'' ''dev'' ''/f1'',
                DynamicSecretDAL_findOne ''db2'' ''folder-1'',
                DynamicSecretLeaseDAL_find 2,
                DynamicSecretDAL_deleteById 2]\<rparr>)
   \<and> fst (list demo_env ''jwt'' ''org'' ''admin'' ''user'' ''p1'' ''/f1'' ''dev''
        (snd (deleteBySlug demo_env ''jwt'' ''org'' ''admin'' ''user'' ''p1'' ''db2'' ''/f1'' ''dev''
                demo_state)))
       = Inr [demo_row 1 ''db1'' False, demo_row 3 ''old'' True]"
  using deleteBySlug_without_leases [where d = demo_env and actor = "''user''"
      and actorId = "''admin''" and projectId = "''p1''" and actorAuthMethod = "''jwt''"
      and actorOrgId = "''org''" and environment = "''dev''" and path = "''/f1''"
      and folder = "\<lparr>id_folder = ''folder-1''\<rparr>" and slug' = "''db2''" and s = demo_state
      and cfg = "demo_row 2 ''db2'' False", OF _ _ _ _ _ refl]
  by (simp add: demo_defs list_def async_defs collab_defs store_defs)

section \<open>Missing folder, missing config\<close>

text \<open>
  C7, as the code has it. For an authorized actor, a path that resolves to no folder
  makes each of the four operations throw \<open>BadRequestError\<close> with the message
  \<open>Folder not found\<close>; in \<open>updateBySlug\<close> and \<open>deleteBySlug\<close>, a slug that no config of
  the folder has makes them throw \<open>BadRequestError\<close> with the message
  \<open>Dynamic secret not found\<close>. The kind is the one the slug collision uses too; the
  message tells them apart.
\<close>

theorem not_found_is_BadRequestError:
  "(getProjectPermission d actor actorId projectId actorAuthMethod actorOrgId Create
        (Secrets environment path)
      \<and> findBySecretPath d projectId environment path = None
      \<longrightarrow> fst (create d path actor slug' actorId maxTTL' provider environment projectId actorOrgId
            defaultTTL' actorAuthMethod s) = Inl (BadRequestError ''Folder not found''))
  \<and> (getProjectPermission d actor actorId projectId actorAuthMethod actorOrgId Edit
        (Secrets environment path)
      \<and> findBySecretPath d projectId environment path = None
      \<longrightarrow> fst (updateBySlug d slug' maxTTL' defaultTTL' inputs environment projectId path actor actorId
            newSlug actorOrgId actorAuthMethod s) = Inl (BadRequestError ''Folder not found'')
        \<and> fst (deleteBySlug d actorAuthMethod actorOrgId actorId actor projectId slug' path environment s)
            = Inl (BadRequestError ''Folder not found'')
        \<and> fst (list d actorAuthMethod actorOrgId actorId actor projectId path environment s)
            = Inl (BadRequestError ''Folder not found''))
  \<and> (getProjectPermission d actor actorId projectId actorAuthMethod actorOrgId Edit
        (Secrets environment path_b)
      \<and> findBySecretPath d projectId environment path_b = Some folder
      \<and> List.find (\<lambda>r. slug r = slug' \<and> folderId r = id_folder folder) (rows s) = None
      \<longrightarrow> fst (updateBySlug d slug' maxTTL' defaultTTL' inputs environment projectId path_b actor actorId
            newSlug actorOrgId actorAuthMethod s) = Inl (BadRequestError ''Dynamic secret not found'')
        \<and> fst (deleteBySlug d actorAuthMethod actorOrgId actorId actor projectId slug' path_b environment s)
            = Inl (BadRequestError ''Dynamic secret not found''))"
  by (simp add: create_def updateBySlug_def deleteBySlug_def list_def async_defs collab_defs
        dynamicSecretDAL_findOne_def)

theorem not_found_is_BadRequestError_witness:
  "findBySecretPath demo_env ''p1'' ''dev'' ''/nope'' = None
   \<and> findBySecretPath demo_env ''p1'' ''dev'' ''/f1'' = Some \<lparr>id_folder = ''folder-1''\<rparr>
   \<and> List.find (\<lambda>r. slug r = ''nope'' \<and> folderId r = ''folder-1'') (rows demo_state) = None
   \<and> fst (create demo_env ''/nope'' ''user'' ''nope'' ''admin'' ''7200''
        \<lparr>provider_type = ''postgres'', provider_inputs = [''host'' \<mapsto> JStr ''x'']\<rparr>
        ''dev'' ''p1'' ''org'' ''3600'' ''jwt'' demo_state) = Inl (BadRequestError ''Folder not found'')
   \<and> fst (updateBySlug demo_env ''nope'' ''7200'' ''3600'' None ''dev'' ''p1'' ''/nope'' ''user''
        ''admin'' None ''org'' ''jwt'' demo_state) = Inl (BadRequestError ''Folder not found'')
   \<and> fst (deleteBySlug demo_env ''jwt'' ''org'' ''admin'' ''user'' ''p1'' ''nope'' ''/nope'' ''dev''
        demo_state) = Inl (BadRequestError ''Folder not found'')
   \<and> fst (list demo_env ''jwt'' ''org'' ''admin'' ''user'' ''p1'' ''/nope'' ''dev'' demo_state)
        = Inl (BadRequestError ''Folder not found'')
   \<and> fst (updateBySlug demo_env ''nope'' ''7200'' ''3600'' None ''dev'' ''p1'' ''/f1'' ''user''
        ''admin'' None ''org'' ''jwt'' demo_state) = Inl (BadRequestError ''Dynamic secret not found'')
   \<and> fst (deleteBySlug demo_env ''jwt'' ''org'' ''admin'' ''user'' ''p1'' ''nope'' ''/f1'' ''dev''
        demo_state) = Inl (BadRequestError ''Dynamic secret not found'')"
  using not_found_is_BadRequestError [where d = demo_env and actor = "''user''"
      and actorId = "''admin''" and projectId = "''p1''" and actorAuthMethod = "''jwt''"
      and actorOrgId = "''org''" and environment = "''dev''" and path = "''/nope''"
      and path_b = "''/f1''" and folder = "\<lparr>id_folder = ''folder-1''\<rparr>" and slug' = "''nope''"
      and s = demo_state]
  by (simp add: demo_defs)

text \<open>
  The claim as the spec words it fails: the error thrown for a missing folder, and for
  a missing config, is not of kind NotFoundError.
\<close>

theorem not_found_kind_counterexample:
  "fst (list demo_env ''jwt'' ''org'' ''admin'' ''user'' ''p1'' ''/nope'' ''dev'' demo_state)
      \<noteq> Inl (NotFoundError ''Folder not found'')
   \<and> fst (list demo_env ''jwt'' ''org'' ''admin'' ''user'' ''p1'' ''/nope'' ''dev'' demo_state)
      = Inl (BadRequestError ''Folder not found'')
   \<and> fst (deleteBySlug demo_env ''jwt'' ''org'' ''admin'' ''user'' ''p1'' ''nope'' ''/f1'' ''dev''
        demo_state) \<noteq> Inl (NotFoundError ''Dynamic secret not found'')
   \<and> fst (deleteBySlug demo_env ''jwt'' ''org'' ''admin'' ''user'' ''p1'' ''nope'' ''/f1'' ''dev''
        demo_state) = Inl (BadRequestError ''Dynamic secret not found'')"
  by (simp add: list_def deleteBySlug_def demo_defs async_defs collab_defs store_defs)

section \<open>Creation\<close>

text \<open>
  C5, as the code has it. For an authorized actor and a resolved folder, \<open>create\<close>
  throws \<open>BadRequestError\<close> with the message
  \<open>Provided dynamic secret already exist under the folder\<close> exactly when some row of
  the folder has the slug, whatever its \<open>isDeleting\<close> flag: the lookup filters on slug
  and folder only.
\<close>

theorem create_conflict_iff:
  assumes perm: "getProjectPermission d actor actorId projectId actorAuthMethod actorOrgId Create
                   (Secrets environment path)"
    and folder: "findBySecretPath d projectId environment path = Some folder"
  shows "(fst (create d path actor slug' actorId maxTTL' provider environment projectId actorOrgId
                 defaultTTL' actorAuthMethod s)
            = Inl (BadRequestError ''Provided dynamic secret already exist under the folder''))
         = (\<exists>r \<in> set (rows s). slug r = slug' \<and> folderId r = id_folder folder)"
proof (cases "List.find (\<lambda>r. slug r = slug' \<and> folderId r = id_folder folder) (rows s)")
  case None
  then have no: "\<not> (\<exists>r \<in> set (rows s). slug r = slug' \<and> folderId r = id_folder folder)"
    by (simp add: find_None_iff)
  have "fst (create d path actor slug' actorId maxTTL' provider environment projectId actorOrgId
                 defaultTTL' actorAuthMethod s)
            \<noteq> Inl (BadRequestError ''Provided dynamic secret already exist under the folder'')"
    using perm folder None
    by (simp add: create_def async_defs collab_defs store_defs Let_def
          split: option.splits sum.splits)
  with no show ?thesis by simp
next
  case (Some r)
  then have yes: "\<exists>r \<in> set (rows s). slug r = slug' \<and> folderId r = id_folder folder"
    using find_mem [OF Some] by auto
  have "fst (create d path actor slug' actorId maxTTL' provider environment projectId actorOrgId
                 defaultTTL' actorAuthMethod s)
            = Inl (BadRequestError ''Provided dynamic secret already exist under the folder'')"
    using perm folder Some
    by (simp add: create_def async_defs collab_defs store_defs)
  with yes show ?thesis by simp
qed

theorem create_conflict_iff_witness:
  "getProjectPermission demo_env ''user'' ''admin'' ''p1'' ''jwt'' ''org'' Create (Secrets ''dev'' ''/f1'')
   \<and> findBySecretPath demo_env ''p1'' ''dev'' ''/f1'' = Some \<lparr>id_folder = ''folder-1''\<rparr>
   \<and> (\<exists>r \<in> set (rows demo_state). slug r = ''db1'' \<and> folderId r = ''folder-1'')
   \<and> fst (create demo_env ''/f1'' ''user'' ''db1'' ''admin'' ''7200''
        \<lparr>provider_type = ''postgres'',
         provider_inputs = [''host'' \<mapsto> JStr ''x'', ''port'' \<mapsto> JNum 5432]\<rparr>
        ''dev'' ''p1'' ''org'' ''3600'' ''jwt'' demo_state)
      = Inl (BadRequestError ''Provided dynamic secret already exist under the folder'')"
proof -
  have perm: "getProjectPermission demo_env ''user'' ''admin'' ''p1'' ''jwt'' ''org'' Create
                (Secrets ''dev'' ''/f1'')"
    by (simp add: demo_env_def)
  have folder: "findBySecretPath demo_env ''p1'' ''dev'' ''/f1'' = Some \<lparr>id_folder = ''folder-1''\<rparr>"
    by (simp add: demo_env_def)
  have used: "\<exists>r \<in> set (rows demo_state). slug r = ''db1'' \<and> folderId r = ''folder-1''"
    by (simp add: demo_state_def demo_row_def)
  from create_conflict_iff [OF perm folder, where slug' = "''db1''" and s = demo_state] used perm folder
  show ?thesis by simp
qed

text \<open>
  The claim as the spec words it fails: the only config of the folder with slug \<open>old\<close>
  has \<open>isDeleting = True\<close>, and it blocks the creation.
\<close>

theorem create_conflict_counterexample:
  "\<not> list_ex (\<lambda>r. slug r = ''old'' \<and> folderId r = ''folder-1'' \<and> \<not> isDeleting r) (rows demo_state)
   \<and> create demo_env ''/f1'' ''user'' ''old'' ''admin'' ''7200''
        \<lparr>provider_type = ''postgres'',
         provider_inputs = [''host'' \<mapsto> JStr ''x'', ''port'' \<mapsto> JNum 5432]\<rparr>
        ''dev'' ''p1'' ''org'' ''3600'' ''jwt'' demo_state
      = (Inl (BadRequestError ''Provided dynamic secret already exist under the folder''),
         demo_state\<lparr>calls := [FolderDAL_findBySecretPath ''p1'' ''dev'' ''/f1'',
                               DynamicSecretDAL_findOne ''old'' ''folder-1'']\<rparr>)"
  by (simp add: create_def demo_defs async_defs collab_defs store_defs)

text \<open>
  C6, as the code has it. \<open>create\<close> with a provider type that the registry does not
  hold always fails and leaves the table and the id counter as they were. The error is
  the one of an earlier check (ForbiddenError, or BadRequestError for a missing folder
  or a used slug) and otherwise the runtime's TypeError for calling
  \<open>validateProviderInputs\<close> on \<^verbatim>\<open>undefined\<close>, thrown after the folder and the slug were
  looked up; it is never a ValidationError or an UnknownProviderError.
\<close>

theorem create_unknown_provider:
  assumes unknown: "dynamicSecretProviders d (provider_type provider) = None"
  shows "fst (create d path actor slug' actorId maxTTL' provider environment projectId actorOrgId
                 defaultTTL' actorAuthMethod s)
           \<in> {Inl ForbiddenError, Inl (BadRequestError ''Folder not found''),
               Inl (BadRequestError ''Provided dynamic secret already exist under the folder''),
               Inl TypeError}
         \<and> rows (snd (create d path actor slug' actorId maxTTL' provider environment projectId
                         actorOrgId defaultTTL' actorAuthMethod s)) = rows s
         \<and> nextId (snd (create d path actor slug' actorId maxTTL' provider environment projectId
                         actorOrgId defaultTTL' actorAuthMethod s)) = nextId s
         \<and> (getProjectPermission d actor actorId projectId actorAuthMethod actorOrgId Create
               (Secrets environment path)
             \<and> findBySecretPath d projectId environment path = Some folder
             \<and> List.find (\<lambda>r. slug r = slug' \<and> folderId r = id_folder folder) (rows s) = None
            \<longrightarrow> create d path actor slug' actorId maxTTL' provider environment projectId actorOrgId
                  defaultTTL' actorAuthMethod s
                = (Inl TypeError,
                   s\<lparr>calls := calls s @ [FolderDAL_findBySecretPath projectId environment path,
                                          DynamicSecretDAL_findOne slug' (id_folder folder)]\<rparr>))"
  using unknown
  by (simp add: create_def async_defs collab_defs store_defs Let_def
        split: option.splits)

theorem create_unknown_provider_witness:
  "dynamicSecretProviders demo_env ''redis'' = None
   \<and> create demo_env ''/f1'' ''user'' ''cache'' ''admin'' ''7200''
        \<lparr>provider_type = ''redis'', provider_inputs = [''host'' \<mapsto> JStr ''x'']\<rparr>
        ''dev'' ''p1'' ''org'' ''3600'' ''jwt'' demo_state
      = (Inl TypeError,
         demo_state\<lparr>calls := [FolderDAL_findBySecretPath ''p1'' ''dev'' ''/f1'',
                               DynamicSecretDAL_findOne ''cache'' ''folder-1'']\<rparr>)
   \<and> rows (snd (create demo_env ''/f1'' ''user'' ''cache'' ''admin'' ''7200''
        \<lparr>provider_type = ''redis'', provider_inputs = [''host'' \<mapsto> JStr ''x'']\<rparr>
        ''dev'' ''p1'' ''org'' ''3600'' ''jwt'' demo_state)) = rows demo_state"
proof -
  have unknown: "dynamicSecretProviders demo_env
      (provider_type \<lparr>provider_type = ''redis'', provider_inputs = [''host'' \<mapsto> JStr ''x'']\<rparr>) = None"
    by (simp add: demo_env_def)
  from create_unknown_provider [OF unknown, where path = "''/f1''" and actor = "''user''"
      and slug' = "''cache''" and actorId = "''admin''" and maxTTL' = "''7200''"
      and environment = "''dev''" and projectId = "''p1''" and actorOrgId = "''org''"
      and defaultTTL' = "''3600''" and actorAuthMethod = "''jwt''" and s = demo_state
      and folder = "\<lparr>id_folder = ''folder-1''\<rparr>"]
  show ?thesis by (simp add: demo_defs)
qed

text \<open>
  The claim as the spec words it fails: the error for an unknown provider type is
  neither a ValidationError nor an UnknownProviderError.
\<close>

theorem create_unknown_provider_counterexample:
  "dynamicSecretProviders demo_env ''mysql'' = None
   \<and> fst (create demo_env ''/f1'' ''user'' ''db9'' ''admin'' ''7200''
        \<lparr>provider_type = ''mysql'', provider_inputs = [''host'' \<mapsto> JStr ''x'']\<rparr>
        ''dev'' ''p1'' ''org'' ''3600'' ''jwt'' demo_state) = Inl TypeError
   \<and> fst (create demo_env ''/f1'' ''user'' ''db9'' ''admin'' ''7200''
        \<lparr>provider_type = ''mysql'', provider_inputs = [''host'' \<mapsto> JStr ''x'']\<rparr>
        ''dev'' ''p1'' ''org'' ''3600'' ''jwt'' demo_state) \<noteq> Inl UnknownProviderError
   \<and> (\<forall>reason. fst (create demo_env ''/f1'' ''user'' ''db9'' ''admin'' ''7200''
        \<lparr>provider_type = ''mysql'', provider_inputs = [''host'' \<mapsto> JStr ''x'']\<rparr>
        ''dev'' ''p1'' ''org'' ''3600'' ''jwt'' demo_state) \<noteq> Inl (ValidationError reason))"
  by (simp add: create_def demo_defs async_defs collab_defs store_defs)

text \<open>
  C8. Whenever \<open>create\<close> succeeds, the config returned has \<open>version = 1\<close> and
  \<open>isDeleting = False\<close>; its five payload columns are the five parts of one encryption
  of the validated input, all of them assigned in the one \<open>create\<close> call on the store
  (the only write logged); the table grows by exactly that row; and the config is the
  row, which has columns for the ciphertext only and none for a decrypted input.
\<close>

theorem create_persists:
  assumes ok: "create d path actor slug' actorId maxTTL' provider environment projectId actorOrgId
                 defaultTTL' actorAuthMethod s = (Inr c, s')"
  shows "\<exists>folder p validated.
           findBySecretPath d projectId environment path = Some folder
         \<and> dynamicSecretProviders d (provider_type provider) = Some p
         \<and> validateProviderInputs p (provider_inputs provider) = Inr validated
         \<and> c = \<lparr>id' = nextId s, folderId = id_folder folder, slug = slug',
                 type' = provider_type provider, version = 1,
                 inputIV = iv (infisicalSymmetricEncypt d (JSON_stringify d validated)),
                 inputTag = tag (infisicalSymmetricEncypt d (JSON_stringify d validated)),
                 inputCiphertext = ciphertext (infisicalSymmetricEncypt d (JSON_stringify d validated)),
                 algorithm = algorithm' (infisicalSymmetricEncypt d (JSON_stringify d validated)),
                 keyEncoding = encoding (infisicalSymmetricEncypt d (JSON_stringify d validated)),
                 maxTTL = maxTTL', defaultTTL = defaultTTL', isDeleting = False\<rparr>
         \<and> s' = \<lparr>rows = rows s @ [c], nextId = Suc (nextId s),
                  calls = calls s @
                    [FolderDAL_findBySecretPath projectId environment path,
                     DynamicSecretDAL_findOne slug' (id_folder folder),
                     Provider_validateProviderInputs (provider_type provider),
                     SymmetricEncrypt (JSON_stringify d validated),
                     DynamicSecretDAL_create
                       [Col_type (provider_type provider),
                        Col_version 1,
                        Col_inputIV (iv (infisicalSymmetricEncypt d (JSON_stringify d validated))),
                        Col_inputTag (tag (infisicalSymmetricEncypt d (JSON_stringify d validated))),
                        Col_inputCiphertext (ciphertext (infisicalSymmetricEncypt d (JSON_stringify d validated))),
                        Col_algorithm (algorithm' (infisicalSymmetricEncypt d (JSON_stringify d validated))),
                        Col_keyEncoding (encoding (infisicalSymmetricEncypt d (JSON_stringify d validated))),
                        Col_maxTTL maxTTL',
                        Col_defaultTTL defaultTTL',
                        Col_folderId (id_folder folder),
                        Col_slug slug']]\<rparr>"
  using ok
  by (auto simp add: create_def async_defs collab_defs store_defs Let_def set_columns_def
        blank_row_def
        split: option.splits sum.splits if_splits)

theorem create_persists_witness:
  "create demo_env ''/f1'' ''user'' ''db9'' ''admin'' ''7200''
        \<lparr>provider_type = ''postgres'',
         provider_inputs = [''host'' \<mapsto> JStr ''x'', ''port'' \<mapsto> JNum 5432]\<rparr>
        ''dev'' ''p1'' ''org'' ''3600'' ''jwt'' demo_state
      = (Inr (demo_row 4 ''db9'' False),
         \<lparr>rows = rows demo_state @ [demo_row 4 ''db9'' False], nextId = 5,
          calls = [FolderDAL_findBySecretPath ''p1'' ''dev'' ''/f1'',
                   DynamicSecretDAL_findOne ''db9'' ''folder-1'',
                   Provider_validateProviderInputs ''postgres'',
                   SymmetricEncrypt ''x:5432'',
                   DynamicSecretDAL_create
                     [Col_type ''postgres'', Col_version 1, Col_inputIV ''iv0'',
                      Col_inputTag ''tag0'', Col_inputCiphertext ''2345:x'',
                      Col_algorithm ''aes-256-gcm'', Col_keyEncoding ''utf8'',
                      Col_maxTTL ''7200'', Col_defaultTTL ''3600'',
                      Col_folderId ''folder-1'', Col_slug ''db9'']]\<rparr>)
   \<and> version (demo_row 4 ''db9'' False) = 1
   \<and> isDeleting (demo_row 4 ''db9'' False) = False"
proof -
  have run: "create demo_env ''/f1'' ''user'' ''db9'' ''admin'' ''7200''
        \<lparr>provider_type = ''postgres'',
         provider_inputs = [''host'' \<mapsto> JStr ''x'', ''port'' \<mapsto> JNum 5432]\<rparr>
        ''dev'' ''p1'' ''org'' ''3600'' ''jwt'' demo_state
      = (Inr (demo_row 4 ''db9'' False),
         \<lparr>rows = rows demo_state @ [demo_row 4 ''db9'' False], nextId = 5,
          calls = [FolderDAL_findBySecretPath ''p1'' ''dev'' ''/f1'',
                   DynamicSecretDAL_findOne ''db9'' ''folder-1'',
                   Provider_validateProviderInputs ''postgres'',
                   SymmetricEncrypt ''x:5432'',
                   DynamicSecretDAL_create
                     [Col_type ''postgres'', Col_version 1, Col_inputIV ''iv0'',
                      Col_inputTag ''tag0'', Col_inputCiphertext ''2345:x'',
                      Col_algorithm ''aes-256-gcm'', Col_keyEncoding ''utf8'',
                      Col_maxTTL ''7200'', Col_defaultTTL ''3600'',
                      Col_folderId ''folder-1'', Col_slug ''db9'']]\<rparr>)"
    by (simp add: create_def demo_defs async_defs collab_defs store_defs set_columns_def
          blank_row_def Let_def)
  from create_persists [OF run] have "version (demo_row 4 ''db9'' False) = 1
      \<and> isDeleting (demo_row 4 ''db9'' False) = False"
    by auto
  with run show ?thesis by simp
qed

section \<open>Update\<close>

text \<open>
  C4, as the code has it. For an authorized actor, a resolved folder and a config found
  by the slug, \<open>updateBySlug\<close> throws \<open>BadRequestError\<close> with the message
  \<open>Provided dynamic secret already exist under the folder\<close> exactly when a non-empty
  \<open>newSlug\<close> is given and some row of the folder has it as its slug. The row may be
  the config that is being updated, and it may be flagged \<open>isDeleting\<close>: the code
  compares \<open>newSlug\<close> with no slug and filters on no flag.
\<close>

theorem updateBySlug_conflict_iff:
  assumes perm: "getProjectPermission d actor actorId projectId actorAuthMethod actorOrgId Edit
                   (Secrets environment path)"
    and folder: "findBySecretPath d projectId environment path = Some folder"
    and cfg: "List.find (\<lambda>r. slug r = slug' \<and> folderId r = id_folder folder) (rows s) = Some cfg"
  shows "(fst (updateBySlug d slug' maxTTL' defaultTTL' inputs environment projectId path actor actorId
                 newSlug actorOrgId actorAuthMethod s)
            = Inl (BadRequestError ''Provided dynamic secret already exist under the folder''))
         = (\<exists>newSlug'. newSlug = Some newSlug' \<and> newSlug' \<noteq> []
              \<and> (\<exists>r \<in> set (rows s). slug r = newSlug' \<and> folderId r = id_folder folder))"
  using perm folder cfg
  by (auto simp add: updateBySlug_def async_defs collab_defs store_defs Let_def truthy_def
        find_None_iff dest: find_mem
        split: option.splits sum.splits if_splits)

theorem updateBySlug_conflict_iff_witness:
  "List.find (\<lambda>r. slug r = ''db1'' \<and> folderId r = ''folder-1'') (rows demo_state)
      = Some (demo_row 1 ''db1'' False)
   \<and> (\<exists>r \<in> set (rows demo_state). slug r = ''db2'' \<and> folderId r = ''folder-1'')
   \<and> fst (updateBySlug demo_env ''db1'' ''7200'' ''3600'' None ''dev'' ''p1'' ''/f1'' ''user'' ''admin''
        (Some ''db2'') ''org'' ''jwt'' demo_state)
      = Inl (BadRequestError ''Provided dynamic secret already exist under the folder'')"
proof -
  have perm: "getProjectPermission demo_env ''user'' ''admin'' ''p1'' ''jwt'' ''org'' Edit
                (Secrets ''dev'' ''/f1'')"
    by (simp add: demo_env_def)
  have folder: "findBySecretPath demo_env ''p1'' ''dev'' ''/f1'' = Some \<lparr>id_folder = ''folder-1''\<rparr>"
    by (simp add: demo_env_def)
  have cfg: "List.find (\<lambda>r. slug r = ''db1'' \<and> folderId r = id_folder \<lparr>id_folder = ''folder-1''\<rparr>)
               (rows demo_state) = Some (demo_row 1 ''db1'' False)"
    by (simp add: demo_state_def demo_row_def)
  have used: "\<exists>r \<in> set (rows demo_state). slug r = ''db2'' \<and> folderId r = ''folder-1''"
    by (simp add: demo_state_def demo_row_def)
  from updateBySlug_conflict_iff [OF perm folder cfg, where newSlug = "Some ''db2''"] used cfg
  show ?thesis by simp
qed

text \<open>
  The claim as the spec words it fails: renaming \<open>db1\<close> to \<open>db1\<close>, its current slug,
  is refused with the collision error, since the second lookup finds the config itself.
\<close>

theorem updateBySlug_conflict_counterexample:
  "List.find (\<lambda>r. slug r = ''db1'' \<and> folderId r = ''folder-1'') (rows demo_state)
      = Some (demo_row 1 ''db1'' False)
   \<and> updateBySlug demo_env ''db1'' ''7200'' ''3600'' None ''dev'' ''p1'' ''/f1'' ''user'' ''admin''
        (Some ''db1'') ''org'' ''jwt'' demo_state
      = (Inl (BadRequestError ''Provided dynamic secret already exist under the folder''),
         demo_state\<lparr>calls := [FolderDAL_findBySecretPath ''p1'' ''dev'' ''/f1'',
                               DynamicSecretDAL_findOne ''db1'' ''folder-1'',
                               DynamicSecretDAL_findOne ''db1'' ''folder-1'']\<rparr>)"
  by (simp add: updateBySlug_def demo_defs async_defs collab_defs store_defs truthy_def)

text \<open>The merge law of the object spread.\<close>

lemma spread_apply:
  "spread stored inputs k =
     (case inputs of
        None \<Rightarrow> stored k
      | Some patch \<Rightarrow> (case patch k of Some v \<Rightarrow> Some v | None \<Rightarrow> stored k))"
  by (simp add: spread_def map_add_def split: option.splits)

text \<open>
  C2. Take a stored config that \<open>updateBySlug\<close> reaches (authorized actor, resolved
  folder, config found by slug, no collision on a new slug) whose payload decrypts and
  parses to \<open>stored\<close>, and whose provider is in the registry. Then for every patch
  \<open>inputs\<close>, absent or partial:
  \<^item> the merged object has the patch's value at every field of the patch and the stored
    value at every other field; stored \<open>{a:1,b:2}\<close> with patch \<open>{b:3}\<close> gives
    \<open>{a:1,b:3}\<close>;
  \<^item> the merged object is what the provider of the config's own type validates; a
    rejection is thrown as ValidationError and the table is left as it was;
  \<^item> otherwise the validated object is serialised and encrypted, and the row of the
    config receives the five parts of that encryption, the TTLs and the resolved slug
    in one \<open>updateById\<close>; the updated config is returned.
  \<open>probe\<close> is the lookup of the new slug, made when one is given and non-empty.
\<close>

theorem updateBySlug_merges:
  assumes perm: "getProjectPermission d actor actorId projectId actorAuthMethod actorOrgId Edit
                   (Secrets environment path)"
    and folder: "findBySecretPath d projectId environment path = Some folder"
    and cfg: "List.find (\<lambda>r. slug r = slug' \<and> folderId r = id_folder folder) (rows s) = Some cfg"
    and ids: "distinct (map id' (rows s))"
    and free: "\<And>n. newSlug = Some n \<Longrightarrow> n \<noteq> [] \<Longrightarrow>
                 List.find (\<lambda>r. slug r = n \<and> folderId r = id_folder folder) (rows s) = None"
    and probe: "probe = (case newSlug of
                           None \<Rightarrow> []
                         | Some n \<Rightarrow> if n \<noteq> [] then [DynamicSecretDAL_findOne n (id_folder folder)] else [])"
    and dec: "infisicalSymmetricDecrypt d (keyEncoding cfg) (inputCiphertext cfg) (inputTag cfg)
                (inputIV cfg) = Some plaintext"
    and parse: "JSON_parse d plaintext = Some stored"
    and prov: "dynamicSecretProviders d (type' cfg) = Some p"
  shows "(\<forall>k. spread stored inputs k =
            (case inputs of
               None \<Rightarrow> stored k
             | Some patch \<Rightarrow> (case patch k of Some v \<Rightarrow> Some v | None \<Rightarrow> stored k)))
       \<and> spread [''a'' \<mapsto> JNum 1, ''b'' \<mapsto> JNum 2] (Some [''b'' \<mapsto> JNum 3])
           = [''a'' \<mapsto> JNum 1, ''b'' \<mapsto> JNum 3]
       \<and> updateBySlug d slug' maxTTL' defaultTTL' inputs environment projectId path actor actorId
           newSlug actorOrgId actorAuthMethod s =
         (case validateProviderInputs p (spread stored inputs) of
            Inl reason \<Rightarrow>
              (Inl (ValidationError reason),
               s\<lparr>calls := calls s @
                    [FolderDAL_findBySecretPath projectId environment path,
                     DynamicSecretDAL_findOne slug' (id_folder folder)] @ probe @
                    [SymmetricDecrypt (inputCiphertext cfg),
                     Provider_validateProviderInputs (type' cfg)]\<rparr>)
          | Inr updatedInput \<Rightarrow>
              (let e = infisicalSymmetricEncypt d (JSON_stringify d updatedInput);
                   cols = [Col_inputIV (iv e), Col_inputTag (tag e),
                           Col_inputCiphertext (ciphertext e), Col_algorithm (algorithm' e),
                           Col_keyEncoding (encoding e), Col_maxTTL maxTTL',
                           Col_defaultTTL defaultTTL', Col_slug (nullish newSlug slug')]
               in (Inr (set_columns cols cfg),
                   s\<lparr>rows := map (\<lambda>r. if id' r = id' cfg then set_columns cols r else r) (rows s),
                     calls := calls s @
                       [FolderDAL_findBySecretPath projectId environment path,
                        DynamicSecretDAL_findOne slug' (id_folder folder)] @ probe @
                       [SymmetricDecrypt (inputCiphertext cfg),
                        Provider_validateProviderInputs (type' cfg),
                        SymmetricEncrypt (JSON_stringify d updatedInput),
                        DynamicSecretDAL_updateById (id' cfg) cols]\<rparr>)))"
proof -
  have byid: "List.find (\<lambda>r. id' r = id' cfg) (rows s) = Some cfg"
    using find_by_id [OF ids cfg] .
  have law: "\<forall>k. spread stored inputs k =
            (case inputs of
               None \<Rightarrow> stored k
             | Some patch \<Rightarrow> (case patch k of Some v \<Rightarrow> Some v | None \<Rightarrow> stored k))"
    by (simp add: spread_apply)
  have ex: "spread [''a'' \<mapsto> JNum 1, ''b'' \<mapsto> JNum 2] (Some [''b'' \<mapsto> JNum 3])
           = [''a'' \<mapsto> JNum 1, ''b'' \<mapsto> JNum 3]"
    by (rule ext) (simp add: spread_def map_add_def)
  have run: "updateBySlug d slug' maxTTL' defaultTTL' inputs environment projectId path actor actorId
           newSlug actorOrgId actorAuthMethod s =
         (case validateProviderInputs p (spread stored inputs) of
            Inl reason \<Rightarrow>
              (Inl (ValidationError reason),
               s\<lparr>calls := calls s @
                    [FolderDAL_findBySecretPath projectId environment path,
                     DynamicSecretDAL_findOne slug' (id_folder folder)] @ probe @
                    [SymmetricDecrypt (inputCiphertext cfg),
                     Provider_validateProviderInputs (type' cfg)]\<rparr>)
          | Inr updatedInput \<Rightarrow>
              (let e = infisicalSymmetricEncypt d (JSON_stringify d updatedInput);
                   cols = [Col_inputIV (iv e), Col_inputTag (tag e),
                           Col_inputCiphertext (ciphertext e), Col_algorithm (algorithm' e),
                           Col_keyEncoding (encoding e), Col_maxTTL maxTTL',
                           Col_defaultTTL defaultTTL', Col_slug (nullish newSlug slug')]
               in (Inr (set_columns cols cfg),
                   s\<lparr>rows := map (\<lambda>r. if id' r = id' cfg then set_columns cols r else r) (rows s),
                     calls := calls s @
                       [FolderDAL_findBySecretPath projectId environment path,
                        DynamicSecretDAL_findOne slug' (id_folder folder)] @ probe @
                       [SymmetricDecrypt (inputCiphertext cfg),
                        Provider_validateProviderInputs (type' cfg),
                        SymmetricEncrypt (JSON_stringify d updatedInput),
                        DynamicSecretDAL_updateById (id' cfg) cols]\<rparr>)))"
    using perm folder cfg byid free probe dec parse prov
    by (cases newSlug; cases "validateProviderInputs p (spread stored inputs)")
       (simp_all add: updateBySlug_def async_defs collab_defs store_defs Let_def truthy_def)
  from law ex run show ?thesis by blast
qed

theorem updateBySlug_merges_witness:
  "updateBySlug demo_env ''db1'' ''9000'' ''600'' (Some [''port'' \<mapsto> JNum 6543]) ''dev'' ''p1''
      ''/f1'' ''user'' ''admin'' (Some ''db1b'') ''org'' ''jwt'' demo_state
     = (Inr ((demo_row 1 ''db1b'' False)
               \<lparr>inputCiphertext := ''rehto:x'', maxTTL := ''9000'', defaultTTL := ''600''\<rparr>),
        \<lparr>rows = [(demo_row 1 ''db1b'' False)
                   \<lparr>inputCiphertext := ''rehto:x'', maxTTL := ''9000'', defaultTTL := ''600''\<rparr>,
                 demo_row 2 ''db2'' False, demo_row 3 ''old'' True],
         nextId = 4,
         calls = [FolderDAL_findBySecretPath ''p1'' ''dev'' ''/f1'',
                  DynamicSecretDAL_findOne ''db1'' ''folder-1'',
                  DynamicSecretDAL_findOne ''db1b'' ''folder-1'',
                  SymmetricDecrypt ''2345:x'',
                  Provider_validateProviderInputs ''postgres'',
                  SymmetricEncrypt ''x:other'',
                  DynamicSecretDAL_updateById 1
                    [Col_inputIV ''iv0'', Col_inputTag ''tag0'', Col_inputCiphertext ''rehto:x'',
                     Col_algorithm ''aes-256-gcm'', Col_keyEncoding ''utf8'',
                     Col_maxTTL ''9000'', Col_defaultTTL ''600'', Col_slug ''db1b'']]\<rparr>)
   \<and> spread [''host'' \<mapsto> JStr ''x'', ''port'' \<mapsto> JNum 5432] (Some [''port'' \<mapsto> JNum 6543]) ''host''
       = Some (JStr ''x'')
   \<and> spread [''host'' \<mapsto> JStr ''x'', ''port'' \<mapsto> JNum 5432] (Some [''port'' \<mapsto> JNum 6543]) ''port''
       = Some (JNum 6543)"
proof -
  have perm: "getProjectPermission demo_env ''user'' ''admin'' ''p1'' ''jwt'' ''org'' Edit
                (Secrets ''dev'' ''/f1'')"
    by (simp add: demo_env_def)
  have folder: "findBySecretPath demo_env ''p1'' ''dev'' ''/f1'' = Some \<lparr>id_folder = ''folder-1''\<rparr>"
    by (simp add: demo_env_def)
  have cfg: "List.find (\<lambda>r. slug r = ''db1'' \<and> folderId r = id_folder \<lparr>id_folder = ''folder-1''\<rparr>)
               (rows demo_state) = Some (demo_row 1 ''db1'' False)"
    by (simp add: demo_state_def demo_row_def)
  have ids: "distinct (map id' (rows demo_state))"
    by (simp add: demo_state_def demo_row_def)
  have free: "\<And>n. Some ''db1b'' = Some n \<Longrightarrow> n \<noteq> [] \<Longrightarrow>
      List.find (\<lambda>r. slug r = n \<and> folderId r = id_folder \<lparr>id_folder = ''folder-1''\<rparr>)
        (rows demo_state) = None"
    by (auto simp add: demo_state_def demo_row_def)
  have dec: "infisicalSymmetricDecrypt demo_env (keyEncoding (demo_row 1 ''db1'' False))
      (inputCiphertext (demo_row 1 ''db1'' False)) (inputTag (demo_row 1 ''db1'' False))
      (inputIV (demo_row 1 ''db1'' False)) = Some ''x:5432''"
    by (simp add: demo_env_def demo_row_def)
  have parse: "JSON_parse demo_env ''x:5432'' = Some [''host'' \<mapsto> JStr ''x'', ''port'' \<mapsto> JNum 5432]"
    by (simp add: demo_env_def demo_parse_def)
  have prov: "dynamicSecretProviders demo_env (type' (demo_row 1 ''db1'' False)) = Some demo_provider"
    by (simp add: demo_env_def demo_row_def)
  from updateBySlug_merges [where newSlug = "Some ''db1b''"
        and inputs = "Some [''port'' \<mapsto> JNum 6543]" and maxTTL' = "''9000''"
        and defaultTTL' = "''600''", OF perm folder cfg ids free refl dec parse prov]
  show ?thesis
    by (simp add: demo_defs set_columns_def nullish_def spread_def map_add_def Let_def)
qed

text \<open>
  C10. Whatever the request and whatever the outcome, \<open>updateBySlug\<close> leaves the
  \<open>id\<close>, \<open>folderId\<close>, \<open>type\<close> and \<open>version\<close> of every row as they were, row by row (so
  it adds and removes none); every \<open>updateById\<close> it issues assigns exactly the columns
  \<open>inputIV\<close>, \<open>inputTag\<close>, \<open>inputCiphertext\<close>, \<open>algorithm\<close>, \<open>keyEncoding\<close>, \<open>maxTTL\<close>,
  \<open>defaultTTL\<close> and \<open>slug\<close>; and the config it returns has the identity and the
  provider binding of a row that was in the table.
\<close>

theorem updateBySlug_frame:
  "map (\<lambda>r. (id' r, folderId r, type' r, version r))
       (rows (snd (updateBySlug d slug' maxTTL' defaultTTL' inputs environment projectId path actor
                     actorId newSlug actorOrgId actorAuthMethod s)))
     = map (\<lambda>r. (id' r, folderId r, type' r, version r)) (rows s)
   \<and> (\<forall>i cols. DynamicSecretDAL_updateById i cols
          \<in> set (drop (length (calls s))
                   (calls (snd (updateBySlug d slug' maxTTL' defaultTTL' inputs environment projectId
                                  path actor actorId newSlug actorOrgId actorAuthMethod s))))
        \<longrightarrow> map column_name cols =
              [''inputIV'', ''inputTag'', ''inputCiphertext'', ''algorithm'', ''keyEncoding'',
               ''maxTTL'', ''defaultTTL'', ''slug''])
   \<and> (\<forall>c. fst (updateBySlug d slug' maxTTL' defaultTTL' inputs environment projectId path actor
                  actorId newSlug actorOrgId actorAuthMethod s) = Inr c
        \<longrightarrow> (\<exists>cfg \<in> set (rows s). id' c = id' cfg \<and> folderId c = folderId cfg
                \<and> type' c = type' cfg \<and> version c = version cfg))"
  by (auto simp add: updateBySlug_def async_defs collab_defs store_defs Let_def truthy_def
        set_columns_def comp_def if_distrib cong: if_cong dest: find_mem
        split: option.splits sum.splits if_splits)

theorem updateBySlug_frame_witness:
  "map (\<lambda>r. (id' r, folderId r, type' r, version r))
       (rows (snd (updateBySlug demo_env ''db2'' ''9000'' ''600'' (Some [''port'' \<mapsto> JNum 6543])
                     ''dev'' ''p1'' ''/f1'' ''user'' ''admin'' (Some ''renamed'') ''org'' ''jwt''
                     demo_state)))
     = [(1, ''folder-1'', ''postgres'', 1), (2, ''folder-1'', ''postgres'', 1),
        (3, ''folder-1'', ''postgres'', 1)]
   \<and> fst (updateBySlug demo_env ''db2'' ''9000'' ''600'' (Some [''port'' \<mapsto> JNum 6543])
            ''dev'' ''p1'' ''/f1'' ''user'' ''admin'' (Some ''renamed'') ''org'' ''jwt'' demo_state)
     = Inr ((demo_row 2 ''renamed'' False)
              \<lparr>inputCiphertext := ''rehto:x'', maxTTL := ''9000'', defaultTTL := ''600''\<rparr>)
   \<and> drop (length (calls demo_state))
        (calls (snd (updateBySlug demo_env ''db2'' ''9000'' ''600'' (Some [''port'' \<mapsto> JNum 6543])
                       ''dev'' ''p1'' ''/f1'' ''user'' ''admin'' (Some ''renamed'') ''org'' ''jwt''
                       demo_state)))
     = [FolderDAL_findBySecretPath ''p1'' ''dev'' ''/f1'',
        DynamicSecretDAL_findOne ''db2'' ''folder-1'',
        DynamicSecretDAL_findOne ''renamed'' ''folder-1'',
        SymmetricDecrypt ''2345:x'',
        Provider_validateProviderInputs ''postgres'',
        SymmetricEncrypt ''x:other'',
        DynamicSecretDAL_updateById 2
          [Col_inputIV ''iv0'', Col_inputTag ''tag0'', Col_inputCiphertext ''rehto:x'',
           Col_algorithm ''aes-256-gcm'', Col_keyEncoding ''utf8'',
           Col_maxTTL ''9000'', Col_defaultTTL ''600'', Col_slug ''renamed'']]"
  using updateBySlug_frame [where d = demo_env and slug' = "''db2''" and maxTTL' = "''9000''"
      and defaultTTL' = "''600''" and inputs = "Some [''port'' \<mapsto> JNum 6543]"
      and environment = "''dev''" and projectId = "''p1''" and path = "''/f1''"
      and actor = "''user''" and actorId = "''admin''" and newSlug = "Some ''renamed''"
      and actorOrgId = "''org''" and actorAuthMethod = "''jwt''" and s = demo_state]
  by (simp add: updateBySlug_def demo_defs async_defs collab_defs store_defs truthy_def
        set_columns_def nullish_def spread_def map_add_def Let_def)

end
